theory Spec2Isabelle
  imports Main "HOL-Library.Word"
begin

section \<open>BaziForm.tsx: the chart form of lifekline\<close>

text \<open>
  The component \<^verbatim>\<open>BaziForm\<close> of \<^verbatim>\<open>src/components/BaziForm.tsx\<close> keeps one record of
  twelve fields in React state, derives the four pillars and the first decade of luck from
  the library \<^verbatim>\<open>lunar-javascript\<close>, shows the direction of the decades and hands
  the record to its host on submission. The handlers are embedded below as functions that
  return the list of effects they perform, in order.
\<close>

subsection \<open>Strings\<close>

text \<open>
  A JavaScript string is a sequence of UTF-16 code units. Every literal of the source is
  written out as its code units; all of them lie in the Basic Multilingual Plane, so each
  character of the source is one unit.
\<close>

type_synonym jsstring = "16 word list"

text \<open>\<^verbatim>\<open>String.prototype.charAt\<close>: the one-unit string at the index, the empty string
  out of range.\<close>

definition charAt :: "jsstring \<Rightarrow> nat \<Rightarrow> jsstring" where
  "charAt s i = (if i < length s then [s ! i] else [])"

text \<open>The units that \<^verbatim>\<open>String.prototype.trim\<close> strips (ECMAScript WhiteSpace and
  LineTerminator): TAB, LF, VT, FF, CR, SP, NBSP, U+1680, U+2000 to U+200A, U+2028, U+2029,
  U+202F, U+205F, U+3000 and U+FEFF.\<close>

definition isWhiteSpace :: "16 word \<Rightarrow> bool" where
  "isWhiteSpace c =
     (c = 0x0009 \<or> c = 0x000A \<or> c = 0x000B \<or> c = 0x000C \<or> c = 0x000D \<or> c = 0x0020
      \<or> c = 0x00A0 \<or> c = 0x1680 \<or> (0x2000 \<le> c \<and> c \<le> 0x200A) \<or> c = 0x2028
      \<or> c = 0x2029 \<or> c = 0x202F \<or> c = 0x205F \<or> c = 0x3000 \<or> c = 0xFEFF)"

definition trim :: "jsstring \<Rightarrow> jsstring" where
  "trim s = rev (dropWhile isWhiteSpace (rev (dropWhile isWhiteSpace s)))"

text \<open>\<^verbatim>\<open>Array.prototype.includes\<close> on an array of strings.\<close>

definition includes_js :: "jsstring list \<Rightarrow> jsstring \<Rightarrow> bool" where
  "includes_js xs x = (x \<in> set xs)"

subsection \<open>The record held in state\<close>

text \<open>
  Modelled from the spec: the enumeration \<^verbatim>\<open>Gender\<close>, which the component imports from
  \<^verbatim>\<open>../types\<close>. The specification gives it the two values Male and Female; the
  component uses \<^verbatim>\<open>Gender.MALE\<close> and \<^verbatim>\<open>Gender.FEMALE\<close>.
\<close>

datatype Gender = MALE | FEMALE

text \<open>
  Modelled from the spec: the type \<^verbatim>\<open>UserInput\<close>, which the component imports from
  \<^verbatim>\<open>../types\<close>. The specification lists its fields, all strings but the gender; they
  are the twelve fields that \<^verbatim>\<open>useState\<close> initialises (lines 12 to 25).
\<close>

record UserInput =
  name :: jsstring
  gender :: Gender
  birthYear :: jsstring
  birthMonth :: jsstring
  birthDay :: jsstring
  birthHour :: jsstring
  yearPillar :: jsstring
  monthPillar :: jsstring
  dayPillar :: jsstring
  hourPillar :: jsstring
  startAge :: jsstring
  firstDaYun :: jsstring

definition initialFormData :: UserInput where
  "initialFormData =
     \<lparr> name = [], gender = MALE, birthYear = [], birthMonth = [], birthDay = [],
       birthHour = [], yearPillar = [], monthPillar = [], dayPillar = [], hourPillar = [],
       startAge = [], firstDaYun = [] \<rparr>"

subsection \<open>The direction of the decades (lines 117 to 134)\<close>

text \<open>The three strings the memo returns: \<^verbatim>\<open>'...'\<close> after four characters for
  "awaiting computation", and the two labels for forward and backward.\<close>

definition label_waiting :: jsstring where
  "label_waiting = [0x7B49, 0x5F85, 0x6392, 0x76D8, 0x002E, 0x002E, 0x002E]"

definition label_forward :: jsstring where
  "label_forward =
     [0x987A, 0x884C, 0x0020, 0x0028, 0x9633, 0x7537, 0x002F, 0x9634, 0x5973, 0x0029]"

definition label_backward :: jsstring where
  "label_backward =
     [0x9006, 0x884C, 0x0020, 0x0028, 0x9634, 0x7537, 0x002F, 0x9633, 0x5973, 0x0029]"

text \<open>The array \<^verbatim>\<open>yinStems\<close>: the stems U+4E59, U+4E01, U+5DF1, U+8F9B, U+7678.\<close>

definition yinStems :: "jsstring list" where
  "yinStems = [[0x4E59], [0x4E01], [0x5DF1], [0x8F9B], [0x7678]]"

definition daYunDirectionInfo :: "UserInput \<Rightarrow> jsstring" where
  "daYunDirectionInfo formData =
     (if yearPillar formData = [] then label_waiting
      else
        let firstChar = charAt (trim (yearPillar formData)) 0;
            isYangYear = (if includes_js yinStems firstChar then False else True);
            isForward = (if gender formData = MALE then isYangYear else \<not> isYangYear)
        in if isForward then label_forward else label_backward)"

text \<open>
  The resolver in the words of the specification: a direction is one of three values,
  shown as the three labels; a stem is Yin when it is one of the five listed characters;
  the direction is forward for a male with a Yang stem or a female with a Yin stem.
\<close>

datatype LuckDirection = Unknown | Forward | Backward

fun render :: "LuckDirection \<Rightarrow> jsstring" where
  "render Unknown = label_waiting"
| "render Forward = label_forward"
| "render Backward = label_backward"

definition isYin :: "jsstring \<Rightarrow> bool" where
  "isYin stem = (stem = [0x4E59] \<or> stem = [0x4E01] \<or> stem = [0x5DF1] \<or> stem = [0x8F9B]
                 \<or> stem = [0x7678])"

definition directionRule :: "jsstring \<Rightarrow> Gender \<Rightarrow> LuckDirection" where
  "directionRule stem g =
     (if (g = MALE \<and> \<not> isYin stem) \<or> (g = FEMALE \<and> isYin stem) then Forward
      else Backward)"

text \<open>The stem as the first character of the year pillar itself.\<close>

definition resolveFromFirstChar :: "jsstring \<Rightarrow> Gender \<Rightarrow> LuckDirection" where
  "resolveFromFirstChar yp g = (if yp = [] then Unknown else directionRule (take 1 yp) g)"

text \<open>The stem as the first character of the year pillar once surrounding white space
  is stripped (no character when nothing is left).\<close>

definition resolveFromTrimmed :: "jsstring \<Rightarrow> Gender \<Rightarrow> LuckDirection" where
  "resolveFromTrimmed yp g =
     (if yp = [] then Unknown else directionRule (take 1 (trim yp)) g)"

text \<open>A string that begins with a unit that \<^verbatim>\<open>trim\<close> strips.\<close>

definition startsWithWhiteSpace :: "jsstring \<Rightarrow> bool" where
  "startsWithWhiteSpace s = (case s of [] \<Rightarrow> False | c # _ \<Rightarrow> isWhiteSpace c)"

text \<open>The five Yang stems U+7532, U+4E19, U+620A, U+5E9A, U+58EC and the five Yin stems,
  as units.\<close>

definition yangStemUnits :: "16 word list" where
  "yangStemUnits = [0x7532, 0x4E19, 0x620A, 0x5E9A, 0x58EC]"

definition yinStemUnits :: "16 word list" where
  "yinStemUnits = [0x4E59, 0x4E01, 0x5DF1, 0x8F9B, 0x7678]"

subsection \<open>What the handlers call\<close>

text \<open>
  The handlers call \<^verbatim>\<open>parseInt\<close>, \<^verbatim>\<open>Number.prototype.toString\<close> and the methods of
  \<^verbatim>\<open>lunar-javascript\<close>. None of them is code of the component, so they are parameters
  of the embedding: \<open>'n\<close> is the type of the numbers that \<^verbatim>\<open>parseInt\<close> and
  \<^verbatim>\<open>getStartAge\<close> return, \<open>'o\<close> the type of the library's objects. The number
  literals of the source (\<^verbatim>\<open>0\<close>, \<^verbatim>\<open>1\<close>) are integers. A library method either
  throws an \<^verbatim>\<open>Error\<close> with a message or returns.
\<close>

datatype jserror = Error (message: jsstring)

record ('o, 'n) runtime =
  parseInt :: "jsstring \<Rightarrow> 'n"
  numberToString :: "'n \<Rightarrow> jsstring"
  fromYmdHms :: "'n \<Rightarrow> 'n \<Rightarrow> 'n \<Rightarrow> 'n \<Rightarrow> int \<Rightarrow> int \<Rightarrow> jserror + 'o"
  getLunar :: "'o \<Rightarrow> jserror + 'o"
  getEightChar :: "'o \<Rightarrow> jserror + 'o"
  getYear :: "'o \<Rightarrow> jserror + jsstring"
  getMonth :: "'o \<Rightarrow> jserror + jsstring"
  getDay :: "'o \<Rightarrow> jserror + jsstring"
  getTime :: "'o \<Rightarrow> jserror + jsstring"
  getYun :: "'o \<Rightarrow> int \<Rightarrow> jserror + 'o"
  getDaYun :: "'o \<Rightarrow> jserror + 'o list"
  getGanZhi :: "'o \<Rightarrow> jserror + jsstring"
  getStartAge :: "'o \<Rightarrow> jserror + 'n"

text \<open>A call of a library method, with its receiver and arguments.\<close>

datatype ('o, 'n) call =
    FromYmdHms 'n 'n 'n 'n int int
  | GetLunar 'o
  | GetEightChar 'o
  | GetYear 'o
  | GetMonth 'o
  | GetDay 'o
  | GetTime 'o
  | GetYun 'o int
  | GetDaYun 'o
  | GetGanZhi 'o
  | GetStartAge 'o

text \<open>
  What a handler does to the world, in order: \<^verbatim>\<open>alert\<close>, \<^verbatim>\<open>console.error\<close>, a
  call of the library, \<^verbatim>\<open>setFormData\<close> with its argument as a function of the state
  it is applied to, \<^verbatim>\<open>e.preventDefault\<close>, and the callback \<^verbatim>\<open>onSubmit\<close> of the props.
\<close>

datatype ('o, 'n) event =
    Alert jsstring
  | ConsoleError jsstring jserror
  | Bridge "('o, 'n) call"
  | SetFormData "UserInput \<Rightarrow> UserInput"
  | PreventDefault
  | OnSubmit UserInput

text \<open>The state after the queued updates of a handler are applied, oldest first.\<close>

fun commit :: "('o, 'n) event list \<Rightarrow> UserInput \<Rightarrow> UserInput" where
  "commit [] s = s"
| "commit (SetFormData u # es) s = commit es (u s)"
| "commit (_ # es) s = commit es s"

fun isBridge :: "('o, 'n) event \<Rightarrow> bool" where
  "isBridge (Bridge _) = True"
| "isBridge _ = False"

fun isSetFormData :: "('o, 'n) event \<Rightarrow> bool" where
  "isSetFormData (SetFormData _) = True"
| "isSetFormData _ = False"

text \<open>
  A statement inside \<^verbatim>\<open>try\<close>: the effects it performed, and the exception it threw
  or the value it produced. A throw skips the statements after it.
\<close>

type_synonym ('o, 'n, 'a) attempt = "('o, 'n) event list \<times> (jserror + 'a)"

definition andThen ::
  "('o, 'n, 'a) attempt \<Rightarrow> ('a \<Rightarrow> ('o, 'n, 'b) attempt) \<Rightarrow> ('o, 'n, 'b) attempt" where
  "andThen m f =
     (case m of
        (t, Inl e) \<Rightarrow> (t, Inl e)
      | (t, Inr a) \<Rightarrow> (case f a of (t', r) \<Rightarrow> (t @ t', r)))"

definition invoke :: "('o, 'n) call \<Rightarrow> jserror + 'a \<Rightarrow> ('o, 'n, 'a) attempt" where
  "invoke c r = ([Bridge c], r)"

definition perform :: "('o, 'n) event \<Rightarrow> ('o, 'n, unit) attempt" where
  "perform ev = ([ev], Inr ())"

subsection \<open>The messages\<close>

text \<open>Line 37: the birth date and hour are to be filled in completely.\<close>

definition msgMissing :: jsstring where
  "msgMissing =
     [0x8BF7, 0x586B, 0x5199, 0x5B8C, 0x6574, 0x7684, 0x51FA, 0x751F, 0x5E74, 0x6708,
      0x65E5, 0x65F6, 0xFF08, 0x9633, 0x5386, 0xFF09]"

text \<open>Line 98: the pillars were computed, the decades were not; check by hand.\<close>

definition msgAnomaly :: jsstring where
  "msgAnomaly =
     [0x516B, 0x5B57, 0x6392, 0x76D8, 0x6210, 0x529F, 0xFF0C, 0x4F46, 0x5927, 0x8FD0,
      0x8BA1, 0x7B97, 0x5F02, 0x5E38, 0xFF0C, 0x8BF7, 0x624B, 0x52A8, 0x68C0, 0x67E5]"

text \<open>Line 102: the label of the console entry.\<close>

definition logPrefix :: jsstring where
  "logPrefix = [0x6392, 0x76D8, 0x5931, 0x8D25, 0x8BE6, 0x60C5, 0x003A]"

text \<open>Line 103: the template around the message of the exception.\<close>

definition failPrefix :: jsstring where
  "failPrefix = [0x81EA, 0x52A8, 0x6392, 0x76D8, 0x5931, 0x8D25, 0x003A, 0x0020]"

definition failSuffix :: jsstring where
  "failSuffix =
     [0x3002, 0x8BF7, 0x68C0, 0x67E5, 0x63A7, 0x5236, 0x53F0, 0x4E86, 0x89E3, 0x8BE6,
      0x60C5, 0x3002]"

text \<open>Line 110: derive the chart or fill in the four pillars first.\<close>

definition msgBlocked :: jsstring where
  "msgBlocked =
     [0x8BF7, 0x5148, 0x8FDB, 0x884C, 0x81EA, 0x52A8, 0x6392, 0x76D8, 0x6216, 0x624B,
      0x52A8, 0x586B, 0x5199, 0x56DB, 0x67F1, 0x4FE1, 0x606F]"

subsection \<open>The derivation (lines 32 to 105)\<close>

text \<open>Line 66: the library's code of a gender.\<close>

definition genderNum :: "Gender \<Rightarrow> int" where
  "genderNum g = (if g = MALE then 1 else 0)"

text \<open>Lines 42 to 99, the block under \<^verbatim>\<open>try\<close>.\<close>

definition tryBlock :: "('o, 'n) runtime \<Rightarrow> UserInput \<Rightarrow> ('o, 'n, unit) attempt" where
  "tryBlock lib formData =
     (let year = parseInt lib (birthYear formData);
          month = parseInt lib (birthMonth formData);
          day = parseInt lib (birthDay formData);
          hour = parseInt lib (birthHour formData)
      in
      andThen (invoke (FromYmdHms year month day hour 0 0)
                 (fromYmdHms lib year month day hour 0 0)) (\<lambda>solar.
      andThen (invoke (GetLunar solar) (getLunar lib solar)) (\<lambda>lunar.
      andThen (invoke (GetEightChar lunar) (getEightChar lib lunar)) (\<lambda>eightChar.
      andThen (invoke (GetYear eightChar) (getYear lib eightChar)) (\<lambda>yearPillar'.
      andThen (invoke (GetMonth eightChar) (getMonth lib eightChar)) (\<lambda>monthPillar'.
      andThen (invoke (GetDay eightChar) (getDay lib eightChar)) (\<lambda>dayPillar'.
      andThen (invoke (GetTime eightChar) (getTime lib eightChar)) (\<lambda>hourPillar'.
      andThen (invoke (GetYun eightChar (genderNum (gender formData)))
                 (getYun lib eightChar (genderNum (gender formData)))) (\<lambda>yun.
      andThen (invoke (GetDaYun yun) (getDaYun lib yun)) (\<lambda>daYunArr.
        if length daYunArr > 1 then
          (let firstDaYunObj = daYunArr ! 1 in
           andThen (invoke (GetGanZhi firstDaYunObj) (getGanZhi lib firstDaYunObj))
             (\<lambda>firstDaYun'.
           andThen (invoke (GetStartAge firstDaYunObj) (getStartAge lib firstDaYunObj))
             (\<lambda>startAge'.
           perform (SetFormData (\<lambda>prev.
             prev\<lparr> yearPillar := yearPillar', monthPillar := monthPillar',
                   dayPillar := dayPillar', hourPillar := hourPillar',
                   startAge := numberToString lib startAge',
                   firstDaYun := firstDaYun' \<rparr>)))))
        else
          andThen (perform (SetFormData (\<lambda>prev.
             prev\<lparr> yearPillar := yearPillar', monthPillar := monthPillar',
                   dayPillar := dayPillar', hourPillar := hourPillar',
                   startAge := [0x0031], firstDaYun := [] \<rparr>)))
            (\<lambda>_. perform (Alert msgAnomaly))))))))))))"

text \<open>Lines 101 to 104, the handler under \<^verbatim>\<open>catch\<close>.\<close>

definition catchBlock :: "jserror \<Rightarrow> ('o, 'n) event list" where
  "catchBlock e =
     [ConsoleError logPrefix e, Alert (failPrefix @ message e @ failSuffix)]"

definition calculateBaZi :: "('o, 'n) runtime \<Rightarrow> UserInput \<Rightarrow> ('o, 'n) event list" where
  "calculateBaZi lib formData =
     (if birthYear formData = [] \<or> birthMonth formData = [] \<or> birthDay formData = []
         \<or> birthHour formData = []
      then [Alert msgMissing]
      else
        (case tryBlock lib formData of
           (t, Inr _) \<Rightarrow> t
         | (t, Inl e) \<Rightarrow> t @ catchBlock e))"

subsection \<open>Submission (lines 107 to 114)\<close>

definition handleSubmit :: "UserInput \<Rightarrow> ('o, 'n) event list" where
  "handleSubmit formData =
     (if yearPillar formData = [] \<or> firstDaYun formData = []
      then [PreventDefault, Alert msgBlocked]
      else [PreventDefault, OnSubmit formData])"

subsection \<open>Edits (lines 27 to 30, 163 and 174)\<close>

text \<open>The \<^verbatim>\<open>name\<close> attributes of the eleven inputs wired to \<^verbatim>\<open>handleChange\<close>.\<close>

datatype inputName =
    N_name | N_birthYear | N_birthMonth | N_birthDay | N_birthHour
  | N_yearPillar | N_monthPillar | N_dayPillar | N_hourPillar | N_startAge | N_firstDaYun

fun setField :: "inputName \<Rightarrow> jsstring \<Rightarrow> UserInput \<Rightarrow> UserInput" where
  "setField N_name v prev = prev\<lparr>name := v\<rparr>"
| "setField N_birthYear v prev = prev\<lparr>birthYear := v\<rparr>"
| "setField N_birthMonth v prev = prev\<lparr>birthMonth := v\<rparr>"
| "setField N_birthDay v prev = prev\<lparr>birthDay := v\<rparr>"
| "setField N_birthHour v prev = prev\<lparr>birthHour := v\<rparr>"
| "setField N_yearPillar v prev = prev\<lparr>yearPillar := v\<rparr>"
| "setField N_monthPillar v prev = prev\<lparr>monthPillar := v\<rparr>"
| "setField N_dayPillar v prev = prev\<lparr>dayPillar := v\<rparr>"
| "setField N_hourPillar v prev = prev\<lparr>hourPillar := v\<rparr>"
| "setField N_startAge v prev = prev\<lparr>startAge := v\<rparr>"
| "setField N_firstDaYun v prev = prev\<lparr>firstDaYun := v\<rparr>"

definition handleChange :: "inputName \<Rightarrow> jsstring \<Rightarrow> ('o, 'n) event list" where
  "handleChange n v = [SetFormData (setField n v)]"


subsection \<open>The wiring of the form (lines 143 to 377)\<close>






subsection \<open>A sample library and sample records\<close>

text \<open>
  A stand-in for the library, to run the handlers on concrete inputs: it rejects a month
  outside 1 to 12 as \<^verbatim>\<open>lunar-javascript\<close> does (message "wrong month"), returns the
  four pillars of scenario 1 of the specification and a list of \<open>k\<close> decades, the first of
  which is the child limit. Numbers are integers; \<open>sampleParseInt\<close> reads a string of
  decimal digits and \<open>sampleToString\<close> prints a number below 100.
\<close>

datatype sampleObj = TheSolar | TheLunar | TheEightChar | TheYun int | Decade nat

definition sampleParseInt :: "jsstring \<Rightarrow> int" where
  "sampleParseInt s = foldl (\<lambda>a c. 10 * a + (uint c - 48)) 0 s"

definition sampleToString :: "int \<Rightarrow> jsstring" where
  "sampleToString n =
     (if n < 10 then [word_of_int (48 + n)]
      else [word_of_int (48 + n div 10), word_of_int (48 + n mod 10)])"

definition msgWrongMonth :: jsstring where
  "msgWrongMonth = [0x77, 0x72, 0x6F, 0x6E, 0x67, 0x20, 0x6D, 0x6F, 0x6E, 0x74, 0x68]"

definition msgNotADecade :: jsstring where
  "msgNotADecade = [0x6E, 0x6F, 0x74, 0x20, 0x61, 0x20, 0x64, 0x65, 0x63, 0x61, 0x64, 0x65]"

definition sampleGanZhi :: "sampleObj \<Rightarrow> jserror + jsstring" where
  "sampleGanZhi x =
     (case x of
        Decade i \<Rightarrow>
          Inr (if i = 0 then [] else if i = 1 then [0x58EC, 0x5348] else [0x7678, 0x672A])
      | _ \<Rightarrow> Inl (Error msgNotADecade))"

definition sampleStartAge :: "sampleObj \<Rightarrow> jserror + int" where
  "sampleStartAge x =
     (case x of
        Decade i \<Rightarrow> Inr (if i = 0 then 1 else 10 * int i - 6)
      | _ \<Rightarrow> Inl (Error msgNotADecade))"

definition sampleRuntime :: "nat \<Rightarrow> (sampleObj, int) runtime" where
  "sampleRuntime k =
     \<lparr> parseInt = sampleParseInt,
       numberToString = sampleToString,
       fromYmdHms = (\<lambda>y m d h mi s.
          if 1 \<le> m \<and> m \<le> 12 then Inr TheSolar else Inl (Error msgWrongMonth)),
       getLunar = (\<lambda>_. Inr TheLunar),
       getEightChar = (\<lambda>_. Inr TheEightChar),
       getYear = (\<lambda>_. Inr [0x5E9A, 0x5348]),
       getMonth = (\<lambda>_. Inr [0x8F9B, 0x5DF3]),
       getDay = (\<lambda>_. Inr [0x4E19, 0x5B50]),
       getTime = (\<lambda>_. Inr [0x7532, 0x5348]),
       getYun = (\<lambda>_ g. Inr (TheYun g)),
       getDaYun = (\<lambda>_. Inr (map Decade [0..<k])),
       getGanZhi = sampleGanZhi,
       getStartAge = sampleStartAge \<rparr>"

text \<open>The birth moment 1990-05-15, 14 h, of a male; the same with month 13; and a
  record whose year pillar and first decade were typed by hand; and a record whose year
  pillar was typed with a space before the stem U+4E59.\<close>

definition sampleForm :: UserInput where
  "sampleForm =
     initialFormData\<lparr> birthYear := [0x31, 0x39, 0x39, 0x30], birthMonth := [0x35],
                      birthDay := [0x31, 0x35], birthHour := [0x31, 0x34] \<rparr>"

definition badMonthForm :: UserInput where
  "badMonthForm = sampleForm\<lparr> birthMonth := [0x31, 0x33], yearPillar := [0x7532, 0x5B50],
                             firstDaYun := [0x4E19, 0x5BC5], startAge := [0x38] \<rparr>"

text \<open>The sample library with three decades, but whose last call, \<^verbatim>\<open>getStartAge\<close>,
  throws.\<close>

definition lateThrowRuntime :: "(sampleObj, int) runtime" where
  "lateThrowRuntime = (sampleRuntime 3)\<lparr> getStartAge := (\<lambda>_. Inl (Error msgNotADecade)) \<rparr>"

definition spacedForm :: UserInput where
  "spacedForm = initialFormData\<lparr> yearPillar := [0x0020, 0x4E59, 0x4E11] \<rparr>"

definition typedForm :: UserInput where
  "typedForm =
     commit (handleChange N_firstDaYun [0x4E19, 0x5BC5]
             :: (sampleObj, int) event list)
       (commit (handleChange N_yearPillar [0x7532, 0x5B50]
                :: (sampleObj, int) event list) initialFormData)"

section \<open>Properties\<close>

subsection \<open>Running the block under try\<close>

lemma andThen_Inl: "andThen (t, Inl e) f = (t, Inl e)"
  by (simp add: andThen_def)

lemma andThen_Inr: "andThen (t, Inr a) f = apfst ((@) t) (f a)"
  by (simp add: andThen_def split: prod.splits)

lemma andThen_invoke_cases:
  "andThen (invoke c r) f =
     (case r of Inl e \<Rightarrow> ([Bridge c], Inl e) | Inr a \<Rightarrow> apfst ((#) (Bridge c)) (f a))"
  by (simp add: andThen_def invoke_def split: sum.splits prod.splits)

lemmas run = andThen_Inl andThen_Inr invoke_def perform_def

lemmas sample = initialFormData_def sampleForm_def badMonthForm_def sampleRuntime_def
  sampleParseInt_def sampleGanZhi_def sampleStartAge_def sampleToString_def

lemma commit_no_update: "filter isSetFormData t = [] \<Longrightarrow> commit t s = s"
  by (induction t s rule: commit.induct) auto

lemma commit_append: "commit (t @ t') s = commit t' (commit t s)"
  by (induction t s rule: commit.induct) auto

text \<open>An exception leaves the block before any update of the state, and right after a
  call of the library.\<close>

lemma tryBlock_throw_no_update:
  "tryBlock lib fd = (t, Inl e) \<Longrightarrow> filter isSetFormData t = []"
  unfolding tryBlock_def Let_def andThen_invoke_cases
  by (auto simp: run split: sum.splits if_splits)

lemma tryBlock_throw_after_call:
  "tryBlock lib fd = (t, Inl e) \<Longrightarrow> \<exists>c. t \<noteq> [] \<and> last t = Bridge c"
  unfolding tryBlock_def Let_def andThen_invoke_cases
  by (auto simp: run split: sum.splits if_splits)

text \<open>A block that completes has queued one update, which overwrites the six derived
  fields with values that do not depend on the state it is applied to.\<close>

lemma tryBlock_success_one_update:
  "tryBlock lib fd = (t, Inr u) \<Longrightarrow> length (filter isSetFormData t) = 1"
  unfolding tryBlock_def Let_def andThen_invoke_cases
  by (auto simp: run split: sum.splits if_splits)

lemma tryBlock_success_merge:
  "tryBlock lib fd = (t, Inr u) \<Longrightarrow>
     commit t prev =
        prev\<lparr> yearPillar := yearPillar (commit t fd),
              monthPillar := monthPillar (commit t fd),
              dayPillar := dayPillar (commit t fd),
              hourPillar := hourPillar (commit t fd),
              startAge := startAge (commit t fd),
              firstDaYun := firstDaYun (commit t fd) \<rparr>"
  unfolding tryBlock_def Let_def andThen_invoke_cases
  by (auto simp: run split: sum.splits if_splits)

lemma tryBlock_getYun_code:
  "tryBlock lib fd = (t, r) \<Longrightarrow> Bridge (GetYun x g) \<in> set t \<Longrightarrow>
     g = (if gender fd = MALE then 1 else 0)"
  unfolding tryBlock_def Let_def andThen_invoke_cases
  by (auto simp: run genderNum_def split: sum.splits if_splits)

lemma tryBlock_reaches_getYun:
  assumes "tryBlock lib fd = (t, r)"
    and "fromYmdHms lib (parseInt lib (birthYear fd)) (parseInt lib (birthMonth fd))
           (parseInt lib (birthDay fd)) (parseInt lib (birthHour fd)) 0 0 = Inr solar"
    and "getLunar lib solar = Inr lunar"
    and "getEightChar lib lunar = Inr eightChar"
    and "getYear lib eightChar = Inr yp"
    and "getMonth lib eightChar = Inr mp"
    and "getDay lib eightChar = Inr dp"
    and "getTime lib eightChar = Inr hp"
  shows "Bridge (GetYun eightChar (if gender fd = MALE then 1 else 0)) \<in> set t"
  using assms unfolding tryBlock_def Let_def andThen_invoke_cases
  by (auto simp: run genderNum_def split: sum.splits if_splits)

lemma tryBlock_first_call:
  assumes "tryBlock lib fd = (t, r)"
  shows "take 1 t =
     [Bridge (FromYmdHms (parseInt lib (birthYear fd)) (parseInt lib (birthMonth fd))
        (parseInt lib (birthDay fd)) (parseInt lib (birthHour fd)) 0 0)]"
proof (cases "fromYmdHms lib (parseInt lib (birthYear fd)) (parseInt lib (birthMonth fd))
        (parseInt lib (birthDay fd)) (parseInt lib (birthHour fd)) 0 0")
  case (Inl e)
  with assms show ?thesis
    by (auto simp: tryBlock_def Let_def run)
next
  case (Inr solar)
  with assms show ?thesis
    by (auto simp: tryBlock_def Let_def run apfst_def map_prod_def split: prod.splits)
qed

lemma calculateBaZi_run:
  assumes "birthYear fd \<noteq> []" "birthMonth fd \<noteq> []" "birthDay fd \<noteq> []" "birthHour fd \<noteq> []"
    and "tryBlock lib fd = (t, r)"
  shows "calculateBaZi lib fd = t @ (case r of Inl e \<Rightarrow> catchBlock e | Inr _ \<Rightarrow> [])"
  using assms by (simp add: calculateBaZi_def split: sum.splits)

lemma calculateBaZi_missing:
  "birthYear fd = [] \<or> birthMonth fd = [] \<or> birthDay fd = [] \<or> birthHour fd = [] \<Longrightarrow>
     calculateBaZi lib fd = [Alert msgMissing]"
  by (simp add: calculateBaZi_def)


lemma render_inj: "render a = render b \<longleftrightarrow> a = b"
  by (cases a; cases b) (simp_all add: label_waiting_def label_forward_def label_backward_def)

subsection \<open>The direction of the decades\<close>

text \<open>
  Claim C1, as stated: the direction shown is unknown for an empty year pillar, and
  otherwise follows the rule on the stem taken as the first character of the year pillar.
  It fails for a year pillar typed with a space in front: on U+0020 U+4E59 U+4E11 and a
  male the rule on the first character (a space, so Yang) gives forward, and the component
  shows backward, since it strips white space before it reads the stem U+4E59 (Yin).
\<close>

theorem direction_first_char_counterexample:
  "daYunDirectionInfo spacedForm = render Backward
   \<and> render (resolveFromFirstChar (yearPillar spacedForm) (gender spacedForm)) = render Forward
   \<and> render Backward \<noteq> render Forward"
  by (simp add: daYunDirectionInfo_def spacedForm_def initialFormData_def trim_def
      isWhiteSpace_def charAt_def includes_js_def yinStems_def resolveFromFirstChar_def
      directionRule_def isYin_def label_forward_def label_backward_def)

text \<open>
  Claim C1, amended: the direction shown is the label of Unknown for an empty year pillar,
  for every gender; otherwise the stem is the first character of the year pillar with its
  leading and trailing white space stripped (no character when nothing is left), it is Yin
  exactly when it is one of the five listed characters and Yang otherwise, and the
  direction is Forward if and only if the gender is male and the stem Yang, or the gender
  is female and the stem Yin, and Backward otherwise.
\<close>

theorem direction_resolver_trims:
  "daYunDirectionInfo fd = render (resolveFromTrimmed (yearPillar fd) (gender fd))"
  by (cases "gender fd"; cases "trim (yearPillar fd)")
     (auto simp: daYunDirectionInfo_def resolveFromTrimmed_def directionRule_def isYin_def
      charAt_def includes_js_def yinStems_def Let_def)

subsection \<open>Submission\<close>

text \<open>
  Claim C2: for every record, \<^verbatim>\<open>handleSubmit\<close> calls \<^verbatim>\<open>onSubmit\<close>, with the record as it
  is, if and only if the year pillar and the first decade are both non-empty; when either
  is empty it alerts the user instead and does not call \<^verbatim>\<open>onSubmit\<close>. No other field is
  read, so it makes no difference how the two fields were filled.
\<close>

theorem submit_guard:
  "(\<forall>r. OnSubmit r \<in> set (handleSubmit fd :: ('o, 'n) event list)
        \<longleftrightarrow> r = fd \<and> yearPillar fd \<noteq> [] \<and> firstDaYun fd \<noteq> [])
   \<and> (yearPillar fd \<noteq> [] \<and> firstDaYun fd \<noteq> []
        \<longrightarrow> (handleSubmit fd :: ('o, 'n) event list) = [PreventDefault, OnSubmit fd])
   \<and> (yearPillar fd = [] \<or> firstDaYun fd = []
        \<longrightarrow> (handleSubmit fd :: ('o, 'n) event list) = [PreventDefault, Alert msgBlocked])"
  by (auto simp: handleSubmit_def)

theorem submit_guard_witness:
  "(handleSubmit typedForm :: (sampleObj, int) event list) = [PreventDefault, OnSubmit typedForm]
   \<and> (handleSubmit (typedForm\<lparr>firstDaYun := []\<rparr>) :: (sampleObj, int) event list)
       = [PreventDefault, Alert msgBlocked]
   \<and> OnSubmit (typedForm\<lparr>firstDaYun := []\<rparr>)
       \<notin> set (handleSubmit (typedForm\<lparr>firstDaYun := []\<rparr>) :: (sampleObj, int) event list)"
  using submit_guard [where fd = typedForm and 'o = sampleObj and 'n = int]
        submit_guard [where fd = "typedForm\<lparr>firstDaYun := []\<rparr>" and 'o = sampleObj and 'n = int]
  by (simp add: typedForm_def handleChange_def initialFormData_def)

subsection \<open>The derivation\<close>

text \<open>
  Claim C3: when the four birth fields are filled, every call of the library up to the list
  of decades succeeds and the list has more than one entry, the derivation reads the
  pillar and the start age of the entry at index 1 and of no other entry, alerts nothing,
  and stores those two values, the start age printed, with the four pillars.
\<close>

theorem first_decade_is_index_one:
  assumes "birthYear fd \<noteq> []" "birthMonth fd \<noteq> []" "birthDay fd \<noteq> []" "birthHour fd \<noteq> []"
    and "fromYmdHms lib (parseInt lib (birthYear fd)) (parseInt lib (birthMonth fd))
           (parseInt lib (birthDay fd)) (parseInt lib (birthHour fd)) 0 0 = Inr solar"
    and "getLunar lib solar = Inr lunar"
    and "getEightChar lib lunar = Inr eightChar"
    and "getYear lib eightChar = Inr yp"
    and "getMonth lib eightChar = Inr mp"
    and "getDay lib eightChar = Inr dp"
    and "getTime lib eightChar = Inr hp"
    and "getYun lib eightChar (if gender fd = MALE then 1 else 0) = Inr yun"
    and "getDaYun lib yun = Inr daYunArr"
    and "1 < length daYunArr"
    and "getGanZhi lib (daYunArr ! 1) = Inr gz"
    and "getStartAge lib (daYunArr ! 1) = Inr age"
  shows "filter isBridge (calculateBaZi lib fd) =
           [Bridge (FromYmdHms (parseInt lib (birthYear fd)) (parseInt lib (birthMonth fd))
              (parseInt lib (birthDay fd)) (parseInt lib (birthHour fd)) 0 0),
            Bridge (GetLunar solar), Bridge (GetEightChar lunar),
            Bridge (GetYear eightChar), Bridge (GetMonth eightChar),
            Bridge (GetDay eightChar), Bridge (GetTime eightChar),
            Bridge (GetYun eightChar (if gender fd = MALE then 1 else 0)),
            Bridge (GetDaYun yun),
            Bridge (GetGanZhi (daYunArr ! 1)), Bridge (GetStartAge (daYunArr ! 1))]
         \<and> [ev \<leftarrow> calculateBaZi lib fd. \<not> isBridge ev \<and> \<not> isSetFormData ev] = []
         \<and> length (filter isSetFormData (calculateBaZi lib fd)) = 1
         \<and> commit (calculateBaZi lib fd) prev =
            prev\<lparr> yearPillar := yp, monthPillar := mp, dayPillar := dp, hourPillar := hp,
                  startAge := numberToString lib age, firstDaYun := gz \<rparr>"
  using assms by (simp add: calculateBaZi_def tryBlock_def Let_def genderNum_def run)

theorem first_decade_is_index_one_witness:
  "filter isBridge (calculateBaZi (sampleRuntime 3) sampleForm) =
       [Bridge (FromYmdHms 1990 5 15 14 0 0), Bridge (GetLunar TheSolar),
        Bridge (GetEightChar TheLunar), Bridge (GetYear TheEightChar),
        Bridge (GetMonth TheEightChar), Bridge (GetDay TheEightChar),
        Bridge (GetTime TheEightChar), Bridge (GetYun TheEightChar 1),
        Bridge (GetDaYun (TheYun 1)), Bridge (GetGanZhi (Decade 1)),
        Bridge (GetStartAge (Decade 1))]
   \<and> commit (calculateBaZi (sampleRuntime 3) sampleForm) sampleForm =
       sampleForm\<lparr> yearPillar := [0x5E9A, 0x5348], monthPillar := [0x8F9B, 0x5DF3],
                   dayPillar := [0x4E19, 0x5B50], hourPillar := [0x7532, 0x5348],
                   startAge := [0x0034], firstDaYun := [0x58EC, 0x5348] \<rparr>"
  using first_decade_is_index_one [where lib = "sampleRuntime 3" and fd = sampleForm
      and solar = TheSolar and lunar = TheLunar and eightChar = TheEightChar
      and yp = "[0x5E9A, 0x5348]" and mp = "[0x8F9B, 0x5DF3]" and dp = "[0x4E19, 0x5B50]"
      and hp = "[0x7532, 0x5348]" and yun = "TheYun 1"
      and daYunArr = "[Decade 0, Decade 1, Decade 2]"
      and gz = "[0x58EC, 0x5348]" and age = 4 and prev = sampleForm]
  by (simp add: sample upt_rec)

text \<open>
  Claim C4: when the four birth fields are filled, every call of the library up to the list
  of decades succeeds and the list has at most one entry, the derivation does not take the
  path of the exception: it reads no entry, stores the four pillars with the start age
  "1" and an empty first decade in one update, and alerts the user of the anomaly, which
  is its only notification.
\<close>

theorem short_decade_list_fallback:
  assumes "birthYear fd \<noteq> []" "birthMonth fd \<noteq> []" "birthDay fd \<noteq> []" "birthHour fd \<noteq> []"
    and "fromYmdHms lib (parseInt lib (birthYear fd)) (parseInt lib (birthMonth fd))
           (parseInt lib (birthDay fd)) (parseInt lib (birthHour fd)) 0 0 = Inr solar"
    and "getLunar lib solar = Inr lunar"
    and "getEightChar lib lunar = Inr eightChar"
    and "getYear lib eightChar = Inr yp"
    and "getMonth lib eightChar = Inr mp"
    and "getDay lib eightChar = Inr dp"
    and "getTime lib eightChar = Inr hp"
    and "getYun lib eightChar (if gender fd = MALE then 1 else 0) = Inr yun"
    and "getDaYun lib yun = Inr daYunArr"
    and "length daYunArr \<le> 1"
  shows "[ev \<leftarrow> calculateBaZi lib fd. \<not> isBridge ev \<and> \<not> isSetFormData ev] = [Alert msgAnomaly]
         \<and> filter isBridge (calculateBaZi lib fd) =
           [Bridge (FromYmdHms (parseInt lib (birthYear fd)) (parseInt lib (birthMonth fd))
              (parseInt lib (birthDay fd)) (parseInt lib (birthHour fd)) 0 0),
            Bridge (GetLunar solar), Bridge (GetEightChar lunar),
            Bridge (GetYear eightChar), Bridge (GetMonth eightChar),
            Bridge (GetDay eightChar), Bridge (GetTime eightChar),
            Bridge (GetYun eightChar (if gender fd = MALE then 1 else 0)),
            Bridge (GetDaYun yun)]
         \<and> length (filter isSetFormData (calculateBaZi lib fd)) = 1
         \<and> commit (calculateBaZi lib fd) prev =
            prev\<lparr> yearPillar := yp, monthPillar := mp, dayPillar := dp, hourPillar := hp,
                  startAge := [0x0031], firstDaYun := [] \<rparr>"
  using assms by (simp add: calculateBaZi_def tryBlock_def Let_def genderNum_def run)

theorem short_decade_list_fallback_witness:
  "[ev \<leftarrow> calculateBaZi (sampleRuntime 1) sampleForm. \<not> isBridge ev \<and> \<not> isSetFormData ev]
       = [Alert msgAnomaly]
   \<and> commit (calculateBaZi (sampleRuntime 1) sampleForm) sampleForm =
       sampleForm\<lparr> yearPillar := [0x5E9A, 0x5348], monthPillar := [0x8F9B, 0x5DF3],
                   dayPillar := [0x4E19, 0x5B50], hourPillar := [0x7532, 0x5348],
                   startAge := [0x0031], firstDaYun := [] \<rparr>"
  using short_decade_list_fallback [where lib = "sampleRuntime 1" and fd = sampleForm
      and solar = TheSolar and lunar = TheLunar and eightChar = TheEightChar
      and yp = "[0x5E9A, 0x5348]" and mp = "[0x8F9B, 0x5DF3]" and dp = "[0x4E19, 0x5B50]"
      and hp = "[0x7532, 0x5348]" and yun = "TheYun 1" and daYunArr = "[Decade 0]"
      and prev = sampleForm]
  by (simp add: sample upt_rec)

text \<open>
  Claim C5: when the four birth fields are filled and a call of the library that the
  derivation makes throws an exception (the first call, or a later one once the calls
  before it have returned), the derivation does nothing besides its calls of the library
  but log the exception and then alert the user with its message inside the fixed
  template; no update of the state is queued, and every state the handler's effects are
  applied to stays as it was.
\<close>

theorem bridge_failure_keeps_record:
  assumes "birthYear fd \<noteq> []" "birthMonth fd \<noteq> []" "birthDay fd \<noteq> []" "birthHour fd \<noteq> []"
    and "fromYmdHms lib (parseInt lib (birthYear fd)) (parseInt lib (birthMonth fd))
           (parseInt lib (birthDay fd)) (parseInt lib (birthHour fd)) 0 0 = Inl e
       \<or> (fromYmdHms lib (parseInt lib (birthYear fd)) (parseInt lib (birthMonth fd))
           (parseInt lib (birthDay fd)) (parseInt lib (birthHour fd)) 0 0 = Inr solar
         \<and> (getLunar lib solar = Inl e
       \<or> (getLunar lib solar = Inr lunar
         \<and> (getEightChar lib lunar = Inl e
       \<or> (getEightChar lib lunar = Inr eightChar
         \<and> (getYear lib eightChar = Inl e
       \<or> (getYear lib eightChar = Inr yp
         \<and> (getMonth lib eightChar = Inl e
       \<or> (getMonth lib eightChar = Inr mp
         \<and> (getDay lib eightChar = Inl e
       \<or> (getDay lib eightChar = Inr dp
         \<and> (getTime lib eightChar = Inl e
       \<or> (getTime lib eightChar = Inr hp
         \<and> (getYun lib eightChar (if gender fd = MALE then 1 else 0) = Inl e
       \<or> (getYun lib eightChar (if gender fd = MALE then 1 else 0) = Inr yun
         \<and> (getDaYun lib yun = Inl e
       \<or> (getDaYun lib yun = Inr daYunArr \<and> 1 < length daYunArr
         \<and> (getGanZhi lib (daYunArr ! 1) = Inl e
       \<or> (getGanZhi lib (daYunArr ! 1) = Inr gz
         \<and> (getStartAge lib (daYunArr ! 1) = Inl e))))))))))))))))))))"
  shows "[ev \<leftarrow> calculateBaZi lib fd. \<not> isBridge ev] =
           [ConsoleError logPrefix e, Alert (failPrefix @ message e @ failSuffix)]
         \<and> filter isSetFormData (calculateBaZi lib fd) = []
         \<and> commit (calculateBaZi lib fd) prev = prev"
  using assms unfolding calculateBaZi_def tryBlock_def Let_def
  by (auto simp: run genderNum_def catchBlock_def)

theorem bridge_failure_keeps_record_witness:
  "calculateBaZi (sampleRuntime 3) badMonthForm =
       [Bridge (FromYmdHms 1990 13 15 14 0 0), ConsoleError logPrefix (Error msgWrongMonth),
        Alert (failPrefix @ msgWrongMonth @ failSuffix)]
   \<and> commit (calculateBaZi (sampleRuntime 3) badMonthForm) badMonthForm = badMonthForm
   \<and> [ev \<leftarrow> calculateBaZi lateThrowRuntime sampleForm. \<not> isBridge ev] =
       [ConsoleError logPrefix (Error msgNotADecade),
        Alert (failPrefix @ msgNotADecade @ failSuffix)]
   \<and> last (filter isBridge (calculateBaZi lateThrowRuntime sampleForm))
       = Bridge (GetStartAge (Decade 1))
   \<and> commit (calculateBaZi lateThrowRuntime sampleForm) badMonthForm = badMonthForm"
proof -
  have early: "[ev \<leftarrow> calculateBaZi (sampleRuntime 3) badMonthForm. \<not> isBridge ev] =
       [ConsoleError logPrefix (Error msgWrongMonth),
        Alert (failPrefix @ message (Error msgWrongMonth) @ failSuffix)]
     \<and> filter isSetFormData (calculateBaZi (sampleRuntime 3) badMonthForm) = []
     \<and> commit (calculateBaZi (sampleRuntime 3) badMonthForm) badMonthForm = badMonthForm"
    by (rule bridge_failure_keeps_record [where lib = "sampleRuntime 3" and fd = badMonthForm
          and e = "Error msgWrongMonth" and prev = badMonthForm])
       (simp_all add: initialFormData_def sampleForm_def badMonthForm_def sampleRuntime_def
          sampleParseInt_def)
  have late: "[ev \<leftarrow> calculateBaZi lateThrowRuntime sampleForm. \<not> isBridge ev] =
       [ConsoleError logPrefix (Error msgNotADecade),
        Alert (failPrefix @ message (Error msgNotADecade) @ failSuffix)]
     \<and> filter isSetFormData (calculateBaZi lateThrowRuntime sampleForm) = []
     \<and> commit (calculateBaZi lateThrowRuntime sampleForm) badMonthForm = badMonthForm"
    by (rule bridge_failure_keeps_record [where lib = lateThrowRuntime and fd = sampleForm
          and e = "Error msgNotADecade" and prev = badMonthForm
          and solar = TheSolar and lunar = TheLunar and eightChar = TheEightChar
          and yp = "[0x5E9A, 0x5348]" and mp = "[0x8F9B, 0x5DF3]" and dp = "[0x4E19, 0x5B50]"
          and hp = "[0x7532, 0x5348]" and yun = "TheYun 1"
          and daYunArr = "[Decade 0, Decade 1, Decade 2]" and gz = "[0x58EC, 0x5348]"])
       (simp_all add: initialFormData_def sampleForm_def lateThrowRuntime_def
          sampleRuntime_def sampleParseInt_def sampleGanZhi_def upt_rec)
  have trace1: "calculateBaZi (sampleRuntime 3) badMonthForm =
       [Bridge (FromYmdHms 1990 13 15 14 0 0), ConsoleError logPrefix (Error msgWrongMonth),
        Alert (failPrefix @ msgWrongMonth @ failSuffix)]"
    by (simp add: calculateBaZi_def tryBlock_def Let_def andThen_def invoke_def
        catchBlock_def initialFormData_def sampleForm_def badMonthForm_def sampleRuntime_def
        sampleParseInt_def)
  have trace2: "last (filter isBridge (calculateBaZi lateThrowRuntime sampleForm))
       = Bridge (GetStartAge (Decade 1))"
    by (simp add: calculateBaZi_def tryBlock_def Let_def andThen_def invoke_def perform_def
        catchBlock_def genderNum_def initialFormData_def sampleForm_def lateThrowRuntime_def
        sampleRuntime_def sampleParseInt_def sampleGanZhi_def upt_rec)
  show ?thesis
    using early late trace1 trace2 by simp
qed

text \<open>
  Claim C6: when the four birth fields are filled and the block under try completes, the
  derivation queues exactly one update of the state; applied to any state, it sets the
  four pillars, the start age and the first decade, all six, to values that do not depend
  on that state, and leaves the name, the gender and the four birth fields as they were.
\<close>

theorem derivation_updates_six_fields:
  assumes "birthYear fd \<noteq> []" "birthMonth fd \<noteq> []" "birthDay fd \<noteq> []" "birthHour fd \<noteq> []"
    and "tryBlock lib fd = (t, Inr u)"
  shows "length (filter isSetFormData (calculateBaZi lib fd)) = 1
         \<and> (\<exists>yp mp dp hp sa fy. \<forall>prev.
               commit (calculateBaZi lib fd) prev =
                 prev\<lparr> yearPillar := yp, monthPillar := mp, dayPillar := dp,
                       hourPillar := hp, startAge := sa, firstDaYun := fy \<rparr>)
         \<and> (\<forall>prev. name (commit (calculateBaZi lib fd) prev) = name prev
               \<and> gender (commit (calculateBaZi lib fd) prev) = gender prev
               \<and> birthYear (commit (calculateBaZi lib fd) prev) = birthYear prev
               \<and> birthMonth (commit (calculateBaZi lib fd) prev) = birthMonth prev
               \<and> birthDay (commit (calculateBaZi lib fd) prev) = birthDay prev
               \<and> birthHour (commit (calculateBaZi lib fd) prev) = birthHour prev)"
proof -
  have whole: "calculateBaZi lib fd = t"
    using calculateBaZi_run [OF assms] by simp
  have one: "length (filter isSetFormData t) = 1"
    using assms(5) by (rule tryBlock_success_one_update)
  have m: "commit t prev =
        prev\<lparr> yearPillar := yearPillar (commit t fd),
              monthPillar := monthPillar (commit t fd),
              dayPillar := dayPillar (commit t fd),
              hourPillar := hourPillar (commit t fd),
              startAge := startAge (commit t fd),
              firstDaYun := firstDaYun (commit t fd) \<rparr>" for prev
    using assms(5) by (rule tryBlock_success_merge)
  have frame: "\<forall>prev. name (commit t prev) = name prev
               \<and> gender (commit t prev) = gender prev
               \<and> birthYear (commit t prev) = birthYear prev
               \<and> birthMonth (commit t prev) = birthMonth prev
               \<and> birthDay (commit t prev) = birthDay prev
               \<and> birthHour (commit t prev) = birthHour prev"
  proof (intro allI conjI)
    fix prev
    show "name (commit t prev) = name prev" by (subst m) simp
    show "gender (commit t prev) = gender prev" by (subst m) simp
    show "birthYear (commit t prev) = birthYear prev" by (subst m) simp
    show "birthMonth (commit t prev) = birthMonth prev" by (subst m) simp
    show "birthDay (commit t prev) = birthDay prev" by (subst m) simp
    show "birthHour (commit t prev) = birthHour prev" by (subst m) simp
  qed
  have ex: "\<exists>yp mp dp hp sa fy. \<forall>prev. commit t prev =
                 prev\<lparr> yearPillar := yp, monthPillar := mp, dayPillar := dp,
                       hourPillar := hp, startAge := sa, firstDaYun := fy \<rparr>"
    by (intro exI allI) (rule m)
  show ?thesis
    unfolding whole by (intro conjI) (rule one, rule ex, rule frame)
qed

theorem derivation_updates_six_fields_witness:
  "length (filter isSetFormData (calculateBaZi (sampleRuntime 3) sampleForm)) = 1
   \<and> name (commit (calculateBaZi (sampleRuntime 3) sampleForm) badMonthForm) = name badMonthForm
   \<and> gender (commit (calculateBaZi (sampleRuntime 3) sampleForm) badMonthForm)
       = gender badMonthForm
   \<and> birthMonth (commit (calculateBaZi (sampleRuntime 3) sampleForm) badMonthForm)
       = [0x31, 0x33]"
  using derivation_updates_six_fields [where lib = "sampleRuntime 3" and fd = sampleForm
      and t = "fst (tryBlock (sampleRuntime 3) sampleForm)" and u = "()"]
  by (simp add: sample tryBlock_def Let_def run genderNum_def upt_rec)

text \<open>
  Claim C7: for every record, the derivation alerts that a field is missing, calls the
  library not at all and leaves the state as it is, if and only if one of the four birth
  fields is empty. With an empty field the alert is all it does; with none empty its first
  effect is the call of the library on the four parsed numbers, whatever they are.
\<close>

theorem missing_field_gate:
  "((Alert msgMissing \<in> set (calculateBaZi lib fd)
      \<and> filter isBridge (calculateBaZi lib fd) = []
      \<and> (\<forall>prev. commit (calculateBaZi lib fd) prev = prev))
     \<longleftrightarrow> (birthYear fd = [] \<or> birthMonth fd = [] \<or> birthDay fd = [] \<or> birthHour fd = []))
   \<and> (birthYear fd = [] \<or> birthMonth fd = [] \<or> birthDay fd = [] \<or> birthHour fd = []
        \<longrightarrow> calculateBaZi lib fd = [Alert msgMissing])
   \<and> (\<not> (birthYear fd = [] \<or> birthMonth fd = [] \<or> birthDay fd = [] \<or> birthHour fd = [])
        \<longrightarrow> take 1 (calculateBaZi lib fd) =
             [Bridge (FromYmdHms (parseInt lib (birthYear fd)) (parseInt lib (birthMonth fd))
                (parseInt lib (birthDay fd)) (parseInt lib (birthHour fd)) 0 0)])"
proof (cases "birthYear fd = [] \<or> birthMonth fd = [] \<or> birthDay fd = [] \<or> birthHour fd = []")
  case True
  then show ?thesis
    by (simp add: calculateBaZi_missing)
next
  case False
  obtain t r where tr: "tryBlock lib fd = (t, r)"
    by (cases "tryBlock lib fd") blast
  from False have ne: "birthYear fd \<noteq> []" "birthMonth fd \<noteq> []" "birthDay fd \<noteq> []"
    "birthHour fd \<noteq> []"
    by simp_all
  have whole: "calculateBaZi lib fd = t @ (case r of Inl e \<Rightarrow> catchBlock e | Inr _ \<Rightarrow> [])"
    using ne tr by (rule calculateBaZi_run)
  obtain t' where t: "t = Bridge (FromYmdHms (parseInt lib (birthYear fd))
      (parseInt lib (birthMonth fd)) (parseInt lib (birthDay fd))
      (parseInt lib (birthHour fd)) 0 0) # t'"
    using tryBlock_first_call [OF tr] by (cases t) auto
  show ?thesis
    using False by (simp add: whole t)
qed

theorem missing_field_gate_witness:
  "calculateBaZi (sampleRuntime 3) initialFormData = [Alert msgMissing]
   \<and> take 1 (calculateBaZi (sampleRuntime 3) sampleForm)
       = [Bridge (FromYmdHms 1990 5 15 14 0 0)]"
proof -
  have blocked: "calculateBaZi (sampleRuntime 3) initialFormData = [Alert msgMissing]"
    using missing_field_gate [of "sampleRuntime 3" initialFormData]
    by (simp add: initialFormData_def)
  have called: "take 1 (calculateBaZi (sampleRuntime 3) sampleForm)
       = [Bridge (FromYmdHms 1990 5 15 14 0 0)]"
    using missing_field_gate [of "sampleRuntime 3" sampleForm]
    by (simp add: initialFormData_def sampleForm_def sampleRuntime_def sampleParseInt_def)
  show ?thesis
    using blocked called by simp
qed

text \<open>
  Claim C8: in every run of the derivation, a call of \<^verbatim>\<open>getYun\<close> carries the code 1 when
  the gender is male and 0 when it is female; and when the four birth fields are filled
  and the calls before it succeed, \<^verbatim>\<open>getYun\<close> is called with that code.
\<close>

theorem gender_code_passed:
  "(\<forall>x g. Bridge (GetYun x g) \<in> set (calculateBaZi lib fd)
       \<longrightarrow> (gender fd = MALE \<longrightarrow> g = 1) \<and> (gender fd = FEMALE \<longrightarrow> g = 0))
   \<and> (birthYear fd \<noteq> [] \<and> birthMonth fd \<noteq> [] \<and> birthDay fd \<noteq> [] \<and> birthHour fd \<noteq> []
       \<and> fromYmdHms lib (parseInt lib (birthYear fd)) (parseInt lib (birthMonth fd))
           (parseInt lib (birthDay fd)) (parseInt lib (birthHour fd)) 0 0 = Inr solar
       \<and> getLunar lib solar = Inr lunar
       \<and> getEightChar lib lunar = Inr eightChar
       \<and> getYear lib eightChar = Inr yp
       \<and> getMonth lib eightChar = Inr mp
       \<and> getDay lib eightChar = Inr dp
       \<and> getTime lib eightChar = Inr hp
       \<longrightarrow> Bridge (GetYun eightChar (if gender fd = MALE then 1 else 0))
             \<in> set (calculateBaZi lib fd))"
proof (cases "birthYear fd = [] \<or> birthMonth fd = [] \<or> birthDay fd = [] \<or> birthHour fd = []")
  case True
  then show ?thesis
    by (auto simp: calculateBaZi_missing)
next
  case False
  obtain t r where tr: "tryBlock lib fd = (t, r)"
    by (cases "tryBlock lib fd") blast
  from False have ne: "birthYear fd \<noteq> []" "birthMonth fd \<noteq> []" "birthDay fd \<noteq> []"
    "birthHour fd \<noteq> []"
    by simp_all
  have whole: "calculateBaZi lib fd = t @ (case r of Inl e \<Rightarrow> catchBlock e | Inr _ \<Rightarrow> [])"
    using ne tr by (rule calculateBaZi_run)
  have calls: "Bridge c \<in> set (calculateBaZi lib fd) \<longleftrightarrow> Bridge c \<in> set t" for c
    by (cases r) (auto simp: whole catchBlock_def)
  have code: "g = (if gender fd = MALE then 1 else 0)"
    if "Bridge (GetYun x g) \<in> set t" for x g
    using tr that by (rule tryBlock_getYun_code)
  show ?thesis
    unfolding calls using code tryBlock_reaches_getYun [OF tr]
    by (cases "gender fd") auto
qed

theorem gender_code_passed_witness:
  "Bridge (GetYun TheEightChar 1) \<in> set (calculateBaZi (sampleRuntime 3) sampleForm)
   \<and> Bridge (GetYun TheEightChar 0)
       \<in> set (calculateBaZi (sampleRuntime 3) (sampleForm\<lparr>gender := FEMALE\<rparr>))
   \<and> Bridge (GetYun TheEightChar 0) \<notin> set (calculateBaZi (sampleRuntime 3) sampleForm)"
proof -
  note male = gender_code_passed [of "sampleRuntime 3" sampleForm TheSolar TheLunar
      TheEightChar "[0x5E9A, 0x5348]" "[0x8F9B, 0x5DF3]" "[0x4E19, 0x5B50]" "[0x7532, 0x5348]"]
  note female = gender_code_passed [of "sampleRuntime 3" "sampleForm\<lparr>gender := FEMALE\<rparr>"
      TheSolar TheLunar TheEightChar
      "[0x5E9A, 0x5348]" "[0x8F9B, 0x5DF3]" "[0x4E19, 0x5B50]" "[0x7532, 0x5348]"]
  have g: "gender sampleForm = MALE"
    by (simp add: sampleForm_def initialFormData_def)
  have one: "Bridge (GetYun TheEightChar 1) \<in> set (calculateBaZi (sampleRuntime 3) sampleForm)"
    using conjunct2 [OF male]
    by (simp add: initialFormData_def sampleForm_def sampleRuntime_def sampleParseInt_def)
  have zero: "Bridge (GetYun TheEightChar 0)
       \<in> set (calculateBaZi (sampleRuntime 3) (sampleForm\<lparr>gender := FEMALE\<rparr>))"
    using conjunct2 [OF female]
    by (simp add: initialFormData_def sampleForm_def sampleRuntime_def sampleParseInt_def)
  have never: "Bridge (GetYun TheEightChar 0) \<notin> set (calculateBaZi (sampleRuntime 3) sampleForm)"
    using conjunct1 [OF male] g by fastforce
  show ?thesis
    using one zero never by simp
qed

subsection \<open>The loading flag\<close>




subsection \<open>The initial record\<close>

text \<open>
  Claim C10: the record the component starts with has the gender male and every other
  field empty; on it the direction shown is the label of Unknown, and a submission alerts
  the user and does not call \<^verbatim>\<open>onSubmit\<close>.
\<close>

theorem initial_record:
  "gender initialFormData = MALE \<and> name initialFormData = []
   \<and> birthYear initialFormData = [] \<and> birthMonth initialFormData = []
   \<and> birthDay initialFormData = [] \<and> birthHour initialFormData = []
   \<and> yearPillar initialFormData = [] \<and> monthPillar initialFormData = []
   \<and> dayPillar initialFormData = [] \<and> hourPillar initialFormData = []
   \<and> startAge initialFormData = [] \<and> firstDaYun initialFormData = []
   \<and> daYunDirectionInfo initialFormData = render Unknown
   \<and> (handleSubmit initialFormData :: ('o, 'n) event list) = [PreventDefault, Alert msgBlocked]
   \<and> OnSubmit initialFormData \<notin> set (handleSubmit initialFormData :: ('o, 'n) event list)"
  by (simp add: initialFormData_def daYunDirectionInfo_def handleSubmit_def)

section \<open>Further properties\<close>

subsection \<open>Year pillars that do not begin with white space\<close>

lemma dropWhile_snoc_keeps:
  "\<not> P c \<Longrightarrow> \<exists>zs. dropWhile P (ys @ [c]) = zs @ [c]"
  by (induction ys) auto

lemma charAt_trim_Cons:
  assumes "\<not> isWhiteSpace c"
  shows "charAt (trim (c # cs)) 0 = [c]"
proof -
  obtain zs where "dropWhile isWhiteSpace (rev cs @ [c]) = zs @ [c]"
    using dropWhile_snoc_keeps [of isWhiteSpace c "rev cs"] assms by blast
  then show ?thesis
    using assms by (simp add: trim_def charAt_def)
qed

lemma direction_of_stem:
  assumes "\<not> isWhiteSpace c" and "yearPillar fd = c # cs"
  shows "daYunDirectionInfo fd =
     (if includes_js yinStems [c] = (gender fd = MALE) then label_backward else label_forward)"
  using charAt_trim_Cons [OF assms(1), of cs]
  by (simp add: daYunDirectionInfo_def assms(2) Let_def)

lemma includes_yinStems: "includes_js yinStems [c] = isYin [c]"
  by (auto simp: includes_js_def yinStems_def isYin_def)

text \<open>
  For a year pillar that does not begin with white space, as every pillar the library
  returns, the stem the component reads is the first character of the year pillar, and the
  direction shown is the one of the rule on that character.
\<close>

theorem direction_first_char_when_not_spaced:
  assumes "\<not> startsWithWhiteSpace (yearPillar fd)"
  shows "daYunDirectionInfo fd = render (resolveFromFirstChar (yearPillar fd) (gender fd))"
proof (cases "yearPillar fd")
  case Nil
  then show ?thesis
    by (simp add: daYunDirectionInfo_def resolveFromFirstChar_def)
next
  case (Cons c cs)
  with assms have "\<not> isWhiteSpace c"
    by (simp add: startsWithWhiteSpace_def)
  then have "daYunDirectionInfo fd =
     (if includes_js yinStems [c] = (gender fd = MALE) then label_backward else label_forward)"
    using Cons by (rule direction_of_stem)
  then show ?thesis
    by (cases "gender fd")
       (simp_all add: resolveFromFirstChar_def Cons directionRule_def includes_yinStems)
qed

theorem direction_first_char_when_not_spaced_witness:
  "daYunDirectionInfo (sampleForm\<lparr>yearPillar := [0x4E59, 0x4E11]\<rparr>) = render Backward
   \<and> resolveFromFirstChar [0x4E59, 0x4E11] MALE = Backward"
  using direction_first_char_when_not_spaced [of "sampleForm\<lparr>yearPillar := [0x4E59, 0x4E11]\<rparr>"]
  by (simp add: startsWithWhiteSpace_def isWhiteSpace_def sampleForm_def initialFormData_def
      resolveFromFirstChar_def directionRule_def isYin_def)

text \<open>
  The table of the specification: a year pillar that begins with one of the five Yang
  stems gives forward for a male and backward for a female; one that begins with one of
  the five Yin stems gives backward for a male and forward for a female.
\<close>

theorem stem_polarity_table:
  "(stem \<in> set yangStemUnits \<longrightarrow>
      daYunDirectionInfo (fd\<lparr>yearPillar := stem # branch, gender := MALE\<rparr>) = render Forward
      \<and> daYunDirectionInfo (fd\<lparr>yearPillar := stem # branch, gender := FEMALE\<rparr>)
          = render Backward)
   \<and> (stem \<in> set yinStemUnits \<longrightarrow>
      daYunDirectionInfo (fd\<lparr>yearPillar := stem # branch, gender := MALE\<rparr>) = render Backward
      \<and> daYunDirectionInfo (fd\<lparr>yearPillar := stem # branch, gender := FEMALE\<rparr>)
          = render Forward)"
proof -
  have yang: "\<not> isWhiteSpace stem \<and> \<not> isYin [stem]" if "stem \<in> set yangStemUnits"
    using that by (auto simp: yangStemUnits_def isWhiteSpace_def isYin_def)
  have yin: "\<not> isWhiteSpace stem \<and> isYin [stem]" if "stem \<in> set yinStemUnits"
    using that by (auto simp: yinStemUnits_def isWhiteSpace_def isYin_def)
  have dir: "daYunDirectionInfo (fd\<lparr>yearPillar := stem # branch, gender := g\<rparr>) =
     (if isYin [stem] = (g = MALE) then label_backward else label_forward)"
    if "\<not> isWhiteSpace stem" for g
    using direction_of_stem [OF that, of "fd\<lparr>yearPillar := stem # branch, gender := g\<rparr>" branch]
    by (simp add: includes_yinStems)
  show ?thesis
    using yang yin by (auto simp: dir)
qed

theorem stem_polarity_table_witness:
  "daYunDirectionInfo (sampleForm\<lparr>yearPillar := [0x5E9A, 0x5348], gender := MALE\<rparr>)
     = render Forward
   \<and> daYunDirectionInfo (sampleForm\<lparr>yearPillar := [0x58EC, 0x7533], gender := FEMALE\<rparr>)
     = render Backward
   \<and> daYunDirectionInfo (sampleForm\<lparr>yearPillar := [0x4E59, 0x4E11], gender := FEMALE\<rparr>)
     = render Forward"
  using stem_polarity_table [where stem = "0x5E9A" and fd = sampleForm and branch = "[0x5348]"]
    stem_polarity_table [where stem = "0x58EC" and fd = sampleForm and branch = "[0x7533]"]
    stem_polarity_table [where stem = "0x4E59" and fd = sampleForm and branch = "[0x4E11]"]
  by (simp add: yangStemUnits_def yinStemUnits_def)

subsection \<open>Edits\<close>

text \<open>
  An edit of an input queues one update that overwrites the field of that name: the year
  pillar and the first decade change only when they are the field edited, and the gender
  never does.
\<close>

theorem edit_overwrites_one_field:
  "commit (handleChange n v :: ('o, 'n) event list) prev = setField n v prev
   \<and> (n \<noteq> N_yearPillar \<longrightarrow> yearPillar (setField n v prev) = yearPillar prev)
   \<and> (n \<noteq> N_firstDaYun \<longrightarrow> firstDaYun (setField n v prev) = firstDaYun prev)
   \<and> gender (setField n v prev) = gender prev
   \<and> yearPillar (setField N_yearPillar v prev) = v
   \<and> firstDaYun (setField N_firstDaYun v prev) = v"
  by (cases n) (simp_all add: handleChange_def)

theorem edit_overwrites_one_field_witness:
  "yearPillar typedForm = [0x7532, 0x5B50] \<and> firstDaYun typedForm = [0x4E19, 0x5BC5]
   \<and> gender typedForm = MALE
   \<and> (handleSubmit typedForm :: (sampleObj, int) event list)
       = [PreventDefault, OnSubmit typedForm]"
  using edit_overwrites_one_field [where n = N_yearPillar and v = "[0x7532, 0x5B50]" and prev = initialFormData
          and 'o = sampleObj and 'n = int]
        edit_overwrites_one_field [where n = N_firstDaYun and v = "[0x4E19, 0x5BC5]"
          and prev = "setField N_yearPillar [0x7532, 0x5B50] initialFormData"
          and 'o = sampleObj and 'n = int]
  by (simp add: typedForm_def handleSubmit_def initialFormData_def handleChange_def)

end
